theory Spec2Isabelle
  imports Main
begin

section \<open>Common Go notions\<close>

text \<open>
  A Go \<open>error\<close> value is \<open>None\<close> for \<open>nil\<close> and \<open>Some msg\<close> for an error carrying the
  message \<open>msg\<close>. A run-time panic of the Go runtime is a value of \<open>panic\<close>.
\<close>

type_synonym go_error = "string option"

datatype panic =
    SliceBoundsOutOfRange
  | SendOnClosedChannel
  | CloseOfClosedChannel
  | NilFuncCall

section \<open>The Dolly backend (package transformers)\<close>

text \<open>The values of \<open>pb.StateResponse\<close> and their \<open>String()\<close> names.\<close>

datatype StateResponse = UNINITIALIZED | BUSY | READY | ERROR

fun StateResponse_String :: "StateResponse \<Rightarrow> string" where
  "StateResponse_String UNINITIALIZED = ''UNINITIALIZED''"
| "StateResponse_String BUSY = ''BUSY''"
| "StateResponse_String READY = ''READY''"
| "StateResponse_String ERROR = ''ERROR''"

record ModelOptions =
  Model :: string
  ModelFile :: string

record PredictOptions =
  Prompt :: string

text \<open>
  \<open>type Dolly struct { base.Base; dolly *transformers.Dolly }\<close>. The embedded base holds
  the state and a mutex; the model pointer is \<open>None\<close> for \<open>nil\<close> and \<open>Some h\<close> for a
  model handle \<open>h\<close>. \<open>Lock\<close> on a mutex that is held waits for its release; the
  functions below give the state from the moment the lock is theirs.
\<close>

record Dolly =
  State :: StateResponse
  mutex_locked :: bool
  dolly :: "nat option"

text \<open>What a call leaves behind outside the struct: log lines and standard output.\<close>

datatype effect =
    LogWarn string
  | Stdout string

text \<open>
  \<open>Load\<close>. The constructor \<open>transformers.NewDolly\<close> belongs to a library, so it is a
  parameter: it maps the model file to the pair (model pointer, error) it returns. The
  mutex is taken after the state test and released by the deferred \<open>Unlock\<close>, so it is
  free again when \<open>Load\<close> returns.
\<close>

definition Load ::
  "(string \<Rightarrow> nat option \<times> go_error) \<Rightarrow> ModelOptions \<Rightarrow> Dolly \<Rightarrow> go_error \<times> Dolly \<times> effect list"
where
  "Load NewDolly opts llm =
     (let logged =
            (if State llm \<noteq> UNINITIALIZED
             then [LogWarn (''dolly backend loading '' @ Model opts @ '' while already in state ''
                            @ StateResponse_String (State llm) @ ''!'')]
             else []);
          llm1 = llm\<lparr>mutex_locked := True\<rparr>;
          (model, err) = NewDolly (ModelFile opts);
          llm2 = llm1\<lparr>dolly := model\<rparr>
      in (err, llm2\<lparr>mutex_locked := False\<rparr>, logged))"

text \<open>
  A Go channel of strings as its consumer sees it: the values handed over so far, whether
  it has been closed, and a count of the \<open>close\<close> operations carried out on it. The
  consumer ranges over the channel until it is closed, so a send on an open channel hands
  the value over. A send on a closed channel and a second close panic.
\<close>

record channel =
  received :: "string list"
  closed :: bool
  close_count :: nat

definition chan_send :: "string \<Rightarrow> channel \<Rightarrow> panic + channel" where
  "chan_send v c =
     (if closed c then Inl SendOnClosedChannel
      else Inr (c\<lparr>received := received c @ [v]\<rparr>))"

definition chan_close :: "channel \<Rightarrow> panic + channel" where
  "chan_close c =
     (if closed c then Inl CloseOfClosedChannel
      else Inr (c\<lparr>closed := True, close_count := close_count c + 1\<rparr>))"

text \<open>
  The state \<open>PredictStream\<close> works on: the receiver \<open>llm\<close>, the results channel it was given and
  the effects so far.
\<close>

record stream_state =
  receiver :: Dolly
  results :: channel
  effects :: "effect list"

text \<open>
  \<open>Predict\<close>. The library call \<open>llm.dolly.Predict(opts.Prompt, buildPredictOptions(opts)...)\<close>
  is the parameter \<open>predict\<close>: from the model pointer and the options to the pair
  (text, error).
\<close>

definition Predict ::
  "(nat option \<Rightarrow> PredictOptions \<Rightarrow> string \<times> go_error) \<Rightarrow> PredictOptions \<Rightarrow> Dolly
     \<Rightarrow> (string \<times> go_error) \<times> Dolly"
where
  "Predict predict opts llm =
     (let llm1 = llm\<lparr>mutex_locked := True\<rparr>
      in (predict (dolly llm1) opts, llm1\<lparr>mutex_locked := False\<rparr>))"

text \<open>
  The goroutine started by \<open>PredictStream\<close>: predict, print the error if there is one,
  send the text, close the channel, unlock. \<open>fmt.Println("err: ", err)\<close> separates its
  operands by a blank and ends the line.
\<close>

definition stream_goroutine ::
  "(nat option \<Rightarrow> PredictOptions \<Rightarrow> string \<times> go_error) \<Rightarrow> PredictOptions \<Rightarrow> stream_state
     \<Rightarrow> panic + stream_state"
where
  "stream_goroutine predict opts s =
     (let (res, err) = predict (dolly (receiver s)) opts;
          s1 = (case err of
                  Some e \<Rightarrow> s\<lparr>effects := effects s @ [Stdout (''err:  '' @ e @ [CHR 0x0A])]\<rparr>
                | None \<Rightarrow> s)
      in case chan_send res (results s1) of
           Inl p \<Rightarrow> Inl p
         | Inr c1 \<Rightarrow>
             (case chan_close c1 of
                Inl p \<Rightarrow> Inl p
              | Inr c2 \<Rightarrow>
                  Inr (s1\<lparr>results := c2, receiver := (receiver s1)\<lparr>mutex_locked := False\<rparr>\<rparr>)))"

text \<open>
  \<open>PredictStream\<close> locks, starts the goroutine and returns \<open>nil\<close>. The first component is
  the error the caller gets back, the second what the goroutine makes of the state.
\<close>

definition PredictStream ::
  "(nat option \<Rightarrow> PredictOptions \<Rightarrow> string \<times> go_error) \<Rightarrow> PredictOptions \<Rightarrow> stream_state
     \<Rightarrow> go_error \<times> (panic + stream_state)"
where
  "PredictStream predict opts s =
     (let s1 = s\<lparr>receiver := (receiver s)\<lparr>mutex_locked := True\<rparr>\<rparr>
      in (None, stream_goroutine predict opts s1))"

section \<open>The model gallery endpoints (package localai)\<close>

text \<open>
  \<open>gallery.Gallery\<close>: a named remote index. The endpoints read its name only. The request
  payload \<open>gallery.GalleryModel\<close> and the status \<open>gallery.GalleryOpStatus\<close> are carried
  around unread, so they are the type parameters \<open>'req\<close> and \<open>'st\<close>.
\<close>

record Gallery =
  URL :: string
  Name :: string

text \<open>\<open>type GalleryModel struct { ID string; gallery.GalleryModel }\<close>, the request body.\<close>

record 'req GalleryModel =
  ID :: string
  Embedded :: 'req

text \<open>\<open>gallery.GalleryOp\<close>, one install job. The field \<open>Id\<close> is written \<open>Id_op\<close> here.\<close>

record 'req GalleryOp =
  Req :: 'req
  Id_op :: string
  GalleryName :: string
  Galleries :: "Gallery list"

text \<open>
  \<open>backend.GalleryApplier\<close>: the installer channel (the jobs sent on it and not yet taken,
  oldest first), written \<open>C_chan\<close> here, and the statuses recorded by UUID.
\<close>

record ('req, 'st) GalleryApplier =
  C_chan :: "'req GalleryOp list"
  statuses :: "string \<Rightarrow> 'st option"

text \<open>
  Modelled from the spec: \<open>GalleryApplier.GetStatus\<close> (package \<open>core/backend\<close>, absent from
  the sources). Callers poll status by UUID: the status recorded for the UUID, or \<open>nil\<close>
  when there is none.
\<close>

definition GetStatus :: "('req, 'st) GalleryApplier \<Rightarrow> string \<Rightarrow> 'st option" where
  "GetStatus ga uuid = statuses ga uuid"

record ('req, 'st) ModelGalleryService =
  galleries :: "Gallery list"
  modelPath :: string
  galleryApplier :: "('req, 'st) GalleryApplier"

text \<open>
  What a handler writes: a status as JSON, a JSON object of string fields, or raw bytes.
  A handler returns \<open>Inl msg\<close> for an error and \<open>Inr\<close> of what it wrote otherwise.
\<close>

datatype 'st response =
    JSON_status 'st
  | JSON_object "(string \<times> string) list"
  | Send string

text \<open>
  \<open>GetOpStatusEndpoint\<close>. The method \<open>galleryApplier.GetStatus\<close> is the parameter
  \<open>GetStatus_fn\<close>: from the applier and the UUID to a status, or to \<open>None\<close> for \<open>nil\<close>.
  \<open>uuid_param\<close> is the value of \<open>c.Params("uuid")\<close>.
\<close>

definition GetOpStatusEndpoint ::
  "(('req, 'st) GalleryApplier \<Rightarrow> string \<Rightarrow> 'st option) \<Rightarrow> ('req, 'st) ModelGalleryService
     \<Rightarrow> string \<Rightarrow> string + 'st response"
where
  "GetOpStatusEndpoint GetStatus_fn mgs uuid_param =
     (case GetStatus_fn (galleryApplier mgs) uuid_param of
        None \<Rightarrow> Inl ''could not find any status for ID''
      | Some status \<Rightarrow> Inr (JSON_status status))"

text \<open>
  \<open>ApplyModelGalleryEndpoint\<close>. \<open>parsed\<close> is what \<open>c.BodyParser\<close> gives (an error, or the
  decoded body), \<open>NewUUID\<close> what \<open>uuid.NewUUID()\<close> gives (an error, or the UUID in its string
  form), \<open>BaseURL\<close> the value of \<open>c.BaseURL()\<close>.
\<close>

definition ApplyModelGalleryEndpoint ::
  "('req, 'st) ModelGalleryService \<Rightarrow> string + 'req GalleryModel \<Rightarrow> string + string \<Rightarrow> string
     \<Rightarrow> (string + 'st response) \<times> ('req, 'st) ModelGalleryService"
where
  "ApplyModelGalleryEndpoint mgs parsed NewUUID BaseURL =
     (case parsed of
        Inl err \<Rightarrow> (Inl err, mgs)
      | Inr input \<Rightarrow>
          (case NewUUID of
             Inl err \<Rightarrow> (Inl err, mgs)
           | Inr uuid \<Rightarrow>
               (let job = \<lparr>Req = Embedded input, Id_op = uuid, GalleryName = ID input,
                           Galleries = galleries mgs\<rparr>;
                    ga = galleryApplier mgs
                in (Inr (JSON_object [(''uuid'', uuid),
                                      (''status'', BaseURL @ ''/models/jobs/'' @ uuid)]),
                    mgs\<lparr>galleryApplier := ga\<lparr>C_chan := C_chan ga @ [job]\<rparr>\<rparr>))))"

text \<open>\<open>slices.ContainsFunc\<close>.\<close>

fun ContainsFunc :: "'a list \<Rightarrow> ('a \<Rightarrow> bool) \<Rightarrow> bool" where
  "ContainsFunc [] f = False"
| "ContainsFunc (x # xs) f = (if f x then True else ContainsFunc xs f)"

text \<open>
  \<open>AddModelGalleryEndpoint\<close>. \<open>Marshal\<close> stands for \<open>json.Marshal\<close> on a gallery list: an
  error, or the bytes.
\<close>

definition AddModelGalleryEndpoint ::
  "(Gallery list \<Rightarrow> string + string) \<Rightarrow> ('req, 'st) ModelGalleryService \<Rightarrow> string + Gallery
     \<Rightarrow> (string + 'st response) \<times> ('req, 'st) ModelGalleryService"
where
  "AddModelGalleryEndpoint Marshal mgs parsed =
     (case parsed of
        Inl err \<Rightarrow> (Inl err, mgs)
      | Inr input \<Rightarrow>
          (if ContainsFunc (galleries mgs) (\<lambda>gallery. Name gallery = Name input)
           then (Inl (Name input @ '' already exists''), mgs)
           else (case Marshal (galleries mgs) of
                   Inl err \<Rightarrow> (Inl err, mgs)
                 | Inr dat \<Rightarrow> (Inr (Send dat), mgs\<lparr>galleries := galleries mgs @ [input]\<rparr>))))"

section \<open>The models list command (package main)\<close>

text \<open>
  The fields of a listed \<open>gallery.GalleryModel\<close> that the command prints: the model's name,
  whether it is installed and the gallery it comes from.
\<close>

record ListedModel =
  Model_Name :: string
  Installed :: bool
  Model_Gallery :: Gallery

text \<open>
  The loop of \<open>ModelsList.Run\<close>: one \<open>fmt.Printf\<close> for each model, in order. Each element
  of the result is the text of one \<open>Printf\<close>.
\<close>

definition print_model :: "ListedModel \<Rightarrow> string" where
  "print_model m =
     (if Installed m
      then '' * '' @ Name (Model_Gallery m) @ ''@'' @ Model_Name m @ '' (installed)'' @ [CHR 0x0A]
      else '' - '' @ Name (Model_Gallery m) @ ''@'' @ Model_Name m @ [CHR 0x0A])"

fun print_models :: "ListedModel list \<Rightarrow> string list" where
  "print_models [] = []"
| "print_models (m # ms) = print_model m # print_models ms"

text \<open>
  \<open>ModelsList.Run\<close>. \<open>Unmarshal\<close> stands for \<open>json.Unmarshal\<close> into the gallery list (the
  list it leaves and its error), \<open>AvailableGalleryModels\<close> for the function of that name in
  package \<open>gallery\<close>. The result is the returned error, the logged errors and the printed
  texts.
\<close>

definition ModelsList_Run ::
  "(string \<Rightarrow> Gallery list \<times> go_error) \<Rightarrow> (Gallery list \<Rightarrow> string \<Rightarrow> string + ListedModel list)
     \<Rightarrow> string \<Rightarrow> string \<Rightarrow> go_error \<times> string list \<times> string list"
where
  "ModelsList_Run Unmarshal AvailableGalleryModels ctx_Galleries ctx_ModelsPath =
     (let (gs, uerr) = Unmarshal ctx_Galleries;
          logged = (case uerr of Some e \<Rightarrow> [''unable to load galleries''] | None \<Rightarrow> [])
      in case AvailableGalleryModels gs ctx_ModelsPath of
           Inl err \<Rightarrow> (Some err, logged, [])
         | Inr models \<Rightarrow> (None, logged, print_models models))"

section \<open>The run command (package main and package cli)\<close>

text \<open>
  The sources hold two versions of \<open>RunCMD.Run\<close>: the one of \<open>main.go\<close> and the one of
  \<open>core/cli/run.go\<close>. The application options they collect are the values of
  \<open>config.AppOption\<close>; durations are counted in nanoseconds.
\<close>

datatype AppOption =
    WithConfigFile string
  | WithJSONStringPreload string
  | WithYAMLConfigPreload string
  | WithModelPath string
  | WithContextSize int
  | WithDebug bool
  | WithImageDir string
  | WithAudioDir string
  | WithUploadDir string
  | WithConfigsDir string
  | WithDynamicConfigDir string
  | WithDynamicConfigDirPollInterval int
  | WithF16 bool
  | WithStringGalleries string
  | WithModelLibraryURL string
  | WithDisableMessage bool
  | WithCors bool
  | WithCorsAllowOrigins string
  | WithCsrf bool
  | WithThreads int
  | WithBackendAssets
  | WithBackendAssetsOutput string
  | WithUploadLimitMB int
  | WithApiKeys "string list"
  | WithModelsURL "string list"
  | WithOpaqueErrors bool
  | DisableWelcomePage
  | DisableWebUI_opt
  | EnableWatchDog
  | EnableWatchDogIdleCheck
  | SetWatchDogIdleTimeout int
  | EnableWatchDogBusyCheck
  | SetWatchDogBusyTimeout int
  | EnableParallelBackendRequests
  | EnableSingleBackend
  | WithExternalBackend string string
  | EnableGalleriesAutoload

text \<open>The fields the two \<open>RunCMD\<close> structs share, then the fields of each.\<close>

record RunCMD =
  ModelArgs :: "string list"
  F16 :: bool
  Threads :: int
  ContextSize :: int
  AutoloadGalleries :: bool
  RemoteLibrary :: string
  PreloadModels :: string
  Models :: "string list"
  PreloadModelsConfig :: string
  Address :: string
  CORS :: bool
  CORSAllowOrigins :: string
  UploadLimit :: int
  APIKeys :: "string list"
  ParallelRequests :: bool
  SingleActiveBackend :: bool
  PreloadBackendOnly :: bool
  ExternalGRPCBackends :: "string list"
  EnableWatchdogIdle :: bool
  WatchdogIdleTimeout :: string
  EnableWatchdogBusy :: bool
  WatchdogBusyTimeout :: string

record RunCMD_main = RunCMD +
  DisableWelcome :: bool

record RunCMD_cli = RunCMD +
  ModelsPath :: string
  BackendAssetsPath :: string
  ImagePath :: string
  AudioPath :: string
  UploadPath :: string
  ConfigPath :: string
  LocalaiConfigDir :: string
  LocalaiConfigDirPollInterval :: int
  ModelsConfigFile :: string
  Galleries_flag :: string
  CSRF :: bool
  DisableWebUI :: bool
  OpaqueErrors :: bool
  Peer2Peer :: bool
  Peer2PeerToken :: string

text \<open>The \<open>Context\<close> of \<open>main.go\<close>; its fields carry the prefix \<open>ctx_\<close> here.\<close>

record Context =
  ctx_Debug :: bool
  ctx_LogLevel :: string
  ctx_Galleries :: string
  ctx_ModelsPath :: string
  ctx_ImagePath :: string
  ctx_AudioPath :: string
  ctx_UploadPath :: string
  ctx_BackendAssetsPath :: string
  ctx_ConfigPath :: string
  ctx_LocalaiConfigDir :: string
  ctx_ModelsConfigFile :: string

text \<open>
  What the command calls outside the sources: \<open>time.ParseDuration\<close> (an error or the
  duration), \<open>startup.Startup\<close> (its error), \<open>os.Stat\<close>, \<open>startup.WatchConfigDirectory\<close>
  (whether the closing function it returns is non-nil, and its error), \<open>http.App\<close>,
  \<open>appHTTP.Listen\<close> (the error it returns once the server has stopped),
  \<open>p2p.GenerateToken\<close>, \<open>p2p.LLamaCPPRPCServerDiscoverer\<close> and whether zerolog's global
  level is at most the debug level.
\<close>

record run_env =
  ParseDuration :: "string \<Rightarrow> string + int"
  Startup :: "AppOption list \<Rightarrow> go_error"
  Stat :: "string \<Rightarrow> go_error"
  WatchConfigDirectory :: "string \<Rightarrow> bool \<times> go_error"
  App :: "AppOption list \<Rightarrow> go_error"
  Listen :: "string \<Rightarrow> go_error"
  GenerateToken :: string
  LLamaCPPRPCServerDiscoverer :: "string \<Rightarrow> go_error"
  GlobalLevelIsDebug :: bool

text \<open>What a run does, in order, and how it ends.\<close>

datatype run_event =
    EvStartup "AppOption list"
  | EvWatchConfigDirectory string
  | EvCloseConfigWatcher
  | EvHttpApp
  | EvListen string
  | EvP2PDiscover string
  | EvPrint string
  | EvScanln

datatype outcome =
    Returned go_error
  | Panicked panic

text \<open>
  \<open>strings.IndexByte\<close>: the index of the first occurrence of the byte, or \<open>-1\<close>. The slice
  expressions \<open>v[:i]\<close> and \<open>v[j:]\<close> panic when the index is outside \<open>0..len(v)\<close>.
\<close>

fun IndexByte :: "string \<Rightarrow> char \<Rightarrow> int" where
  "IndexByte [] c = -1"
| "IndexByte (x # xs) c =
     (if x = c then 0
      else (let i = IndexByte xs c in if i < 0 then -1 else i + 1))"

definition slice_to :: "string \<Rightarrow> int \<Rightarrow> panic + string" where
  "slice_to v i =
     (if 0 \<le> i \<and> i \<le> int (length v) then Inr (take (nat i) v) else Inl SliceBoundsOutOfRange)"

definition slice_from :: "string \<Rightarrow> int \<Rightarrow> panic + string" where
  "slice_from v j =
     (if 0 \<le> j \<and> j \<le> int (length v) then Inr (drop (nat j) v) else Inl SliceBoundsOutOfRange)"

text \<open>The body of the loop over the external gRPC backends, and the loop.\<close>

definition external_backend :: "string \<Rightarrow> AppOption list \<Rightarrow> panic + AppOption list" where
  "external_backend v opts =
     (case slice_to v (IndexByte v (CHR '':'')) of
        Inl p \<Rightarrow> Inl p
      | Inr backend \<Rightarrow>
          (case slice_from v (IndexByte v (CHR '':'') + 1) of
             Inl p \<Rightarrow> Inl p
           | Inr uri \<Rightarrow> Inr (opts @ [WithExternalBackend backend uri])))"

fun external_backends :: "string list \<Rightarrow> AppOption list \<Rightarrow> panic + AppOption list" where
  "external_backends [] opts = Inr opts"
| "external_backends (v # vs) opts =
     (case external_backend v opts of
        Inl p \<Rightarrow> Inl p
      | Inr opts' \<Rightarrow> external_backends vs opts')"

text \<open>The watchdog options: a timeout that does not parse makes \<open>Run\<close> return the error.\<close>

definition watchdog_opts ::
  "run_env \<Rightarrow> 'a RunCMD_scheme \<Rightarrow> AppOption list \<Rightarrow> outcome + AppOption list"
where
  "watchdog_opts env r opts =
     (if EnableWatchdogIdle r \<or> EnableWatchdogBusy r
      then
        (case (if EnableWatchdogIdle r
               then (case ParseDuration env (WatchdogIdleTimeout r) of
                       Inl err \<Rightarrow> Inl (Returned (Some err))
                     | Inr dur \<Rightarrow>
                         Inr (opts @ [EnableWatchDog, EnableWatchDogIdleCheck,
                                      SetWatchDogIdleTimeout dur]))
               else Inr (opts @ [EnableWatchDog])) of
           Inl out \<Rightarrow> Inl out
         | Inr opts1 \<Rightarrow>
             (if EnableWatchdogBusy r
              then (case ParseDuration env (WatchdogBusyTimeout r) of
                      Inl err \<Rightarrow> Inl (Returned (Some err))
                    | Inr dur \<Rightarrow>
                        Inr (opts1 @ [EnableWatchDogBusyCheck, SetWatchDogBusyTimeout dur]))
              else Inr opts1))
      else Inr opts)"

text \<open>
  The part both versions share, from the watchdog options to the autoload option: the
  options collected, or the way \<open>Run\<close> ends before it gets to startup.
\<close>

definition collect_opts ::
  "run_env \<Rightarrow> 'a RunCMD_scheme \<Rightarrow> AppOption list \<Rightarrow> outcome + AppOption list"
where
  "collect_opts env r opts =
     (case watchdog_opts env r opts of
        Inl out \<Rightarrow> Inl out
      | Inr opts1 \<Rightarrow>
          (let opts2 = (if ParallelRequests r then opts1 @ [EnableParallelBackendRequests]
                        else opts1);
               opts3 = (if SingleActiveBackend r then opts2 @ [EnableSingleBackend] else opts2)
           in case external_backends (ExternalGRPCBackends r) opts3 of
                Inl p \<Rightarrow> Inl (Panicked p)
              | Inr opts4 \<Rightarrow>
                  Inr (if AutoloadGalleries r then opts4 @ [EnableGalleriesAutoload]
                       else opts4)))"

text \<open>
  From the HTTP application on, in both versions: construct the application and, when
  that succeeds, listen on the address and return what \<open>Listen\<close> returns.
\<close>

definition serve ::
  "run_env \<Rightarrow> 'a RunCMD_scheme \<Rightarrow> AppOption list \<Rightarrow> run_event list \<Rightarrow> run_event list \<times> outcome"
where
  "serve env r opts evs =
     (case App env opts of
        Some err \<Rightarrow> (evs @ [EvHttpApp], Returned (Some err))
      | None \<Rightarrow> (evs @ [EvHttpApp, EvListen (Address r)], Returned (Listen env (Address r))))"

text \<open>
  The deferred call of the function \<open>WatchConfigDirectory\<close> returned: it runs when \<open>Run\<close>
  returns, and calling a nil function panics.
\<close>

definition deferred_close :: "bool \<Rightarrow> run_event list \<times> outcome \<Rightarrow> run_event list \<times> outcome" where
  "deferred_close closer_non_nil res =
     (if closer_non_nil then (fst res @ [EvCloseConfigWatcher], snd res)
      else (fst res, Panicked NilFuncCall))"

text \<open>\<open>RunCMD.Run\<close> of \<open>main.go\<close>, from the test of \<open>PreloadBackendOnly\<close> to the end.\<close>

definition startup_main ::
  "run_env \<Rightarrow> 'a RunCMD_scheme \<Rightarrow> Context \<Rightarrow> AppOption list \<Rightarrow> run_event list \<times> outcome"
where
  "startup_main env r ctx opts =
     (if PreloadBackendOnly r then ([EvStartup opts], Returned (Startup env opts))
      else
        (case Startup env opts of
           Some err \<Rightarrow>
             ([EvStartup opts], Returned (Some (''failed basic startup tasks with error '' @ err)))
         | None \<Rightarrow>
             (let configdir = ctx_LocalaiConfigDir ctx
              in case Stat env configdir of
                   None \<Rightarrow>
                     (let (closer_non_nil, werr) = WatchConfigDirectory env configdir;
                          evs = [EvStartup opts, EvWatchConfigDirectory configdir]
                      in deferred_close closer_non_nil
                           (case werr of
                              Some e \<Rightarrow>
                                (evs, Returned (Some
                                   (''failed while watching configuration directory ''
                                    @ configdir)))
                            | None \<Rightarrow> serve env r opts evs))
                 | Some e \<Rightarrow> serve env r opts [EvStartup opts])))"

definition base_opts_main :: "RunCMD_main \<Rightarrow> Context \<Rightarrow> AppOption list" where
  "base_opts_main r ctx =
     [WithConfigFile (ctx_ModelsConfigFile ctx),
      WithJSONStringPreload (PreloadModels r),
      WithYAMLConfigPreload (PreloadModelsConfig r),
      WithModelPath (ctx_ModelsPath ctx),
      WithContextSize (ContextSize r),
      WithDebug (ctx_Debug ctx),
      WithImageDir (ctx_ImagePath ctx),
      WithAudioDir (ctx_AudioPath ctx),
      WithUploadDir (ctx_UploadPath ctx),
      WithConfigsDir (ctx_ConfigPath ctx),
      WithF16 (F16 r),
      WithStringGalleries (ctx_Galleries ctx),
      WithModelLibraryURL (RemoteLibrary r),
      WithDisableMessage False,
      WithCors (CORS r),
      WithCorsAllowOrigins (CORSAllowOrigins r),
      WithThreads (Threads r),
      WithBackendAssets,
      WithBackendAssetsOutput (ctx_BackendAssetsPath ctx),
      WithUploadLimitMB (UploadLimit r),
      WithApiKeys (APIKeys r),
      WithModelsURL (Models r @ ModelArgs r)]"

text \<open>The options \<open>Run\<close> of \<open>main.go\<close> has collected when it gets to startup.\<close>

definition opts_main :: "run_env \<Rightarrow> RunCMD_main \<Rightarrow> Context \<Rightarrow> outcome + AppOption list" where
  "opts_main env r ctx =
     (let opts = base_opts_main r ctx;
          opts1 = (if DisableWelcome r then opts @ [DisableWelcomePage] else opts)
      in collect_opts env r opts1)"

definition Run_main :: "run_env \<Rightarrow> RunCMD_main \<Rightarrow> Context \<Rightarrow> run_event list \<times> outcome" where
  "Run_main env r ctx =
     (case opts_main env r ctx of
        Inl out \<Rightarrow> ([], out)
      | Inr opts \<Rightarrow> startup_main env r ctx opts)"

text \<open>\<open>RunCMD.Run\<close> of \<open>core/cli/run.go\<close>.\<close>

definition base_opts_cli :: "run_env \<Rightarrow> RunCMD_cli \<Rightarrow> AppOption list" where
  "base_opts_cli env r =
     [WithConfigFile (ModelsConfigFile r),
      WithJSONStringPreload (PreloadModels r),
      WithYAMLConfigPreload (PreloadModelsConfig r),
      WithModelPath (ModelsPath r),
      WithContextSize (ContextSize r),
      WithDebug (GlobalLevelIsDebug env),
      WithImageDir (ImagePath r),
      WithAudioDir (AudioPath r),
      WithUploadDir (UploadPath r),
      WithConfigsDir (ConfigPath r),
      WithDynamicConfigDir (LocalaiConfigDir r),
      WithDynamicConfigDirPollInterval (LocalaiConfigDirPollInterval r),
      WithF16 (F16 r),
      WithStringGalleries (Galleries_flag r),
      WithModelLibraryURL (RemoteLibrary r),
      WithCors (CORS r),
      WithCorsAllowOrigins (CORSAllowOrigins r),
      WithCsrf (CSRF r),
      WithThreads (Threads r),
      WithBackendAssets,
      WithBackendAssetsOutput (BackendAssetsPath r),
      WithUploadLimitMB (UploadLimit r),
      WithApiKeys (APIKeys r),
      WithModelsURL (Models r @ ModelArgs r),
      WithOpaqueErrors (OpaqueErrors r)]"

text \<open>
  The peer-to-peer block: the events it leaves, or the error it makes \<open>Run\<close> return.
\<close>

definition p2p_block :: "run_env \<Rightarrow> RunCMD_cli \<Rightarrow> run_event list \<times> go_error" where
  "p2p_block env r =
     (if Peer2Peer r \<or> Peer2PeerToken r \<noteq> ''''
      then
        (let generated = (Peer2PeerToken r = '''');
             token = (if generated then GenerateToken env else Peer2PeerToken r);
             evs = (if generated
                    then [EvPrint (token @ [CHR 0x0A]),
                          EvPrint (''export TOKEN='' @ [CHR 0x22] @ token @ [CHR 0x22, CHR 0x0A]
                                   @ ''local-ai worker p2p-llama-cpp-rpc'' @ [CHR 0x0A]),
                          EvScanln]
                    else [])
         in (evs @ [EvP2PDiscover token], LLamaCPPRPCServerDiscoverer env token))
      else ([], None))"

definition startup_cli ::
  "run_env \<Rightarrow> 'a RunCMD_scheme \<Rightarrow> AppOption list \<Rightarrow> run_event list \<Rightarrow> run_event list \<times> outcome"
where
  "startup_cli env r opts evs =
     (if PreloadBackendOnly r then (evs @ [EvStartup opts], Returned (Startup env opts))
      else
        (case Startup env opts of
           Some err \<Rightarrow>
             (evs @ [EvStartup opts],
              Returned (Some (''failed basic startup tasks with error '' @ err)))
         | None \<Rightarrow> serve env r opts (evs @ [EvStartup opts])))"

text \<open>
  The options \<open>Run\<close> of \<open>run.go\<close> has collected when it gets to startup, once the
  peer-to-peer block is behind it.
\<close>

definition opts_cli :: "run_env \<Rightarrow> RunCMD_cli \<Rightarrow> outcome + AppOption list" where
  "opts_cli env r =
     (let opts = base_opts_cli env r;
          opts1 = (if DisableWebUI r then opts @ [DisableWebUI_opt] else opts)
      in collect_opts env r opts1)"

definition Run_cli :: "run_env \<Rightarrow> RunCMD_cli \<Rightarrow> run_event list \<times> outcome" where
  "Run_cli env r =
     (case p2p_block env r of
        (evs, Some err) \<Rightarrow> (evs, Returned (Some err))
      | (evs, None) \<Rightarrow>
          (case opts_cli env r of
             Inl out \<Rightarrow> (evs, out)
           | Inr opts \<Rightarrow> startup_cli env r opts evs))"




text \<open>Concrete inputs used below.\<close>

definition ready_dolly :: Dolly where
  "ready_dolly = \<lparr>State = READY, mutex_locked = False, dolly = Some 1\<rparr>"

definition fresh_chan :: channel where
  "fresh_chan = \<lparr>received = [], closed = False, close_count = 0\<rparr>"

definition stream_start :: stream_state where
  "stream_start = \<lparr>receiver = ready_dolly, results = fresh_chan, effects = []\<rparr>"

definition failing_predict :: "nat option \<Rightarrow> PredictOptions \<Rightarrow> string \<times> go_error" where
  "failing_predict m opts = ('''', Some ''out of memory'')"


definition failing_NewDolly :: "string \<Rightarrow> nat option \<times> go_error" where
  "failing_NewDolly f = (None, Some ''failed loading model'')"

definition some_prompt :: PredictOptions where
  "some_prompt = \<lparr>Prompt = ''hi''\<rparr>"

definition some_model :: ModelOptions where
  "some_model = \<lparr>Model = ''dolly'', ModelFile = ''dolly.bin''\<rparr>"

definition hub_gallery :: Gallery where
  "hub_gallery = \<lparr>URL = ''github:go-skynet/model-gallery/index.yaml'', Name = ''model-gallery''\<rparr>"

definition extra_gallery :: Gallery where
  "extra_gallery = \<lparr>URL = ''https://example.org/index.yaml'', Name = ''extra''\<rparr>"

definition sample_applier :: "(string, string) GalleryApplier" where
  "sample_applier =
     \<lparr>C_chan = [], statuses = (\<lambda>u. if u = ''1b4e28ba'' then Some ''processing'' else None)\<rparr>"

definition sample_service :: "(string, string) ModelGalleryService" where
  "sample_service =
     \<lparr>galleries = [hub_gallery], modelPath = ''/models'', galleryApplier = sample_applier\<rparr>"

definition sample_body :: "string GalleryModel" where
  "sample_body = \<lparr>ID = ''huggingface@llama-7b'', Embedded = ''llama-7b''\<rparr>"

definition names_marshal :: "Gallery list \<Rightarrow> string + string" where
  "names_marshal gs = Inr (concat (map Name gs))"

definition llama_listed :: ListedModel where
  "llama_listed = \<lparr>Model_Name = ''llama-7b'', Installed = True, Model_Gallery = hub_gallery\<rparr>"

definition bert_listed :: ListedModel where
  "bert_listed = \<lparr>Model_Name = ''bert'', Installed = False, Model_Gallery = hub_gallery\<rparr>"

definition unmarshal_stub :: "string \<Rightarrow> Gallery list \<times> go_error" where
  "unmarshal_stub s = ([hub_gallery], None)"

definition available_stub :: "Gallery list \<Rightarrow> string \<Rightarrow> string + ListedModel list" where
  "available_stub gs p = Inr [llama_listed, bert_listed]"

definition parse_duration_stub :: "string \<Rightarrow> string + int" where
  "parse_duration_stub s =
     (if s = ''15m'' then Inr 900000000000
      else if s = ''5m'' then Inr 300000000000
      else Inl (''time: invalid duration '' @ [CHR 0x22] @ s @ [CHR 0x22]))"

definition plain_env :: run_env where
  "plain_env =
     \<lparr>ParseDuration = parse_duration_stub,
      Startup = (\<lambda>opts. None),
      Stat = (\<lambda>p. Some ''no such file or directory''),
      WatchConfigDirectory = (\<lambda>p. (True, None)),
      App = (\<lambda>opts. None),
      Listen = (\<lambda>a. None),
      GenerateToken = ''token'',
      LLamaCPPRPCServerDiscoverer = (\<lambda>t. None),
      GlobalLevelIsDebug = False\<rparr>"


definition plain_ctx :: Context where
  "plain_ctx =
     \<lparr>ctx_Debug = False, ctx_LogLevel = ''info'', ctx_Galleries = '''',
      ctx_ModelsPath = ''/models'', ctx_ImagePath = ''/tmp/generated/images'',
      ctx_AudioPath = ''/tmp/generated/audio'', ctx_UploadPath = ''/tmp/localai/upload'',
      ctx_BackendAssetsPath = ''/tmp/localai/backend_data'',
      ctx_ConfigPath = ''/tmp/localai/config'', ctx_LocalaiConfigDir = ''/configuration'',
      ctx_ModelsConfigFile = ''''\<rparr>"

definition plain_cmd :: RunCMD_main where
  "plain_cmd =
     \<lparr>ModelArgs = [], F16 = False, Threads = 4, ContextSize = 512, AutoloadGalleries = False,
      RemoteLibrary = '''', PreloadModels = '''', Models = [], PreloadModelsConfig = '''',
      Address = '':8080'', CORS = False, CORSAllowOrigins = '''', UploadLimit = 15,
      APIKeys = [], ParallelRequests = False, SingleActiveBackend = False,
      PreloadBackendOnly = False, ExternalGRPCBackends = [], EnableWatchdogIdle = False,
      WatchdogIdleTimeout = ''15m'', EnableWatchdogBusy = False, WatchdogBusyTimeout = ''5m'',
      DisableWelcome = False\<rparr>"

definition plain_cli :: RunCMD_cli where
  "plain_cli =
     \<lparr>ModelArgs = [], F16 = False, Threads = 4, ContextSize = 512, AutoloadGalleries = False,
      RemoteLibrary = '''', PreloadModels = '''', Models = [], PreloadModelsConfig = '''',
      Address = '':8080'', CORS = False, CORSAllowOrigins = '''', UploadLimit = 15,
      APIKeys = [], ParallelRequests = False, SingleActiveBackend = False,
      PreloadBackendOnly = False, ExternalGRPCBackends = [], EnableWatchdogIdle = False,
      WatchdogIdleTimeout = ''15m'', EnableWatchdogBusy = False, WatchdogBusyTimeout = ''5m'',
      ModelsPath = ''/models'', BackendAssetsPath = ''/tmp/localai/backend_data'',
      ImagePath = ''/tmp/generated/images'', AudioPath = ''/tmp/generated/audio'',
      UploadPath = ''/tmp/localai/upload'', ConfigPath = ''/tmp/localai/config'',
      LocalaiConfigDir = ''/configuration'', LocalaiConfigDirPollInterval = 0,
      ModelsConfigFile = '''', Galleries_flag = '''', CSRF = False, DisableWebUI = False,
      OpaqueErrors = False, Peer2Peer = False, Peer2PeerToken = ''''\<rparr>"

text \<open>The flag \<open>--preload-backend-only\<close>, alone and with an idle timeout that does not parse.\<close>

definition preload_cmd :: RunCMD_main where
  "preload_cmd = plain_cmd\<lparr>PreloadBackendOnly := True\<rparr>"

definition preload_cli :: RunCMD_cli where
  "preload_cli = plain_cli\<lparr>PreloadBackendOnly := True\<rparr>"

definition bad_watchdog_cmd :: RunCMD_main where
  "bad_watchdog_cmd = preload_cmd\<lparr>EnableWatchdogIdle := True, WatchdogIdleTimeout := ''soon''\<rparr>"

definition bad_watchdog_cli :: RunCMD_cli where
  "bad_watchdog_cli = preload_cli\<lparr>EnableWatchdogIdle := True, WatchdogIdleTimeout := ''soon''\<rparr>"





section \<open>Properties of the Dolly backend\<close>

lemma stream_goroutine_open:
  assumes "\<not> closed (results s)" and "predict (dolly (receiver s)) opts = (res, err)"
  shows "stream_goroutine predict opts s =
           Inr \<lparr>receiver = (receiver s)\<lparr>mutex_locked := False\<rparr>,
                results = (results s)\<lparr>received := received (results s) @ [res],
                                       closed := True,
                                       close_count := close_count (results s) + 1\<rparr>,
                effects = effects s @
                  (case err of Some e \<Rightarrow> [Stdout (''err:  '' @ e @ [CHR 0x0A])] | None \<Rightarrow> [])\<rparr>"
  using assms
  by (cases err) (simp_all add: stream_goroutine_def chan_send_def chan_close_def)



text \<open>
  C2, as the code has it. When the library's Predict returns an error, PredictStream
  still returns nil to its caller; the goroutine prints the error on standard output,
  sends the text Predict returned as an ordinary value on the channel and closes the
  channel. The stream ends by the close; no error reaches the consumer.
\<close>

theorem PredictStream_error_only_printed:
  assumes "\<not> closed (results s)" and "predict (dolly (receiver s)) opts = (res, Some e)"
  shows "fst (PredictStream predict opts s) = None
         \<and> (\<exists>s'. snd (PredictStream predict opts s) = Inr s'
                  \<and> received (results s') = received (results s) @ [res]
                  \<and> closed (results s')
                  \<and> effects s' = effects s @ [Stdout (''err:  '' @ e @ [CHR 0x0A])])"
proof -
  let ?s1 = "s\<lparr>receiver := (receiver s)\<lparr>mutex_locked := True\<rparr>\<rparr>"
  have "\<not> closed (results ?s1)" using assms(1) by simp
  moreover have "predict (dolly (receiver ?s1)) opts = (res, Some e)" using assms(2) by simp
  ultimately show ?thesis
    by (simp add: PredictStream_def stream_goroutine_open)
qed

theorem PredictStream_error_only_printed_witness:
  "\<not> closed (results stream_start)
   \<and> failing_predict (dolly (receiver stream_start)) some_prompt = ('''', Some ''out of memory'')
   \<and> fst (PredictStream failing_predict some_prompt stream_start) = None
   \<and> (\<exists>s'. snd (PredictStream failing_predict some_prompt stream_start) = Inr s'
            \<and> received (results s') = received (results stream_start) @ ['''']
            \<and> closed (results s')
            \<and> effects s' = effects stream_start @ [Stdout (''err:  '' @ ''out of memory'' @ [CHR 0x0A])])"
proof -
  have h1: "\<not> closed (results stream_start)"
    by (simp add: stream_start_def fresh_chan_def)
  have h2: "failing_predict (dolly (receiver stream_start)) some_prompt
              = ('''', Some ''out of memory'')"
    by (simp add: failing_predict_def)
  show ?thesis
    using h1 h2
      PredictStream_error_only_printed
        [where s = stream_start and predict = failing_predict and opts = some_prompt
           and res = "[]" and e = "''out of memory''"]
    by simp
qed

text \<open>
  C2, as the claim has it, fails: with a Predict that returns the error "out of memory"
  and the empty text, PredictStream returns nil, and all the consumer gets on the channel
  is the empty text followed by the close. The error message is on standard output only.
\<close>

theorem PredictStream_error_counterexample:
  "snd (failing_predict (dolly (receiver stream_start)) some_prompt) = Some ''out of memory''
   \<and> PredictStream failing_predict some_prompt stream_start =
       (None,
        Inr \<lparr>receiver = ready_dolly,
             results = \<lparr>received = [''''], closed = True, close_count = 1\<rparr>,
             effects = [Stdout (''err:  out of memory'' @ [CHR 0x0A])]\<rparr>)"
  by (simp add: PredictStream_def stream_goroutine_def chan_send_def chan_close_def
      failing_predict_def stream_start_def ready_dolly_def fresh_chan_def)

text \<open>
  C10. On an instance whose state is not UNINITIALIZED, Load logs the warning, calls the
  constructor all the same, stores the pointer the constructor returns over the one held
  before, leaves the state as it was and returns exactly the constructor's error.
\<close>

theorem Load_when_already_initialized:
  assumes "State llm \<noteq> UNINITIALIZED" and "NewDolly (ModelFile opts) = (model, err)"
  shows "Load NewDolly opts llm =
           (err,
            llm\<lparr>mutex_locked := False, dolly := model\<rparr>,
            [LogWarn (''dolly backend loading '' @ Model opts @ '' while already in state ''
                      @ StateResponse_String (State llm) @ ''!'')])"
  using assms by (simp add: Load_def)

theorem Load_when_already_initialized_witness:
  "State ready_dolly \<noteq> UNINITIALIZED
   \<and> failing_NewDolly (ModelFile some_model) = (None, Some ''failed loading model'')
   \<and> Load failing_NewDolly some_model ready_dolly =
       (Some ''failed loading model'',
        \<lparr>State = READY, mutex_locked = False, dolly = None\<rparr>,
        [LogWarn ''dolly backend loading dolly while already in state READY!''])"
proof -
  have h1: "State ready_dolly \<noteq> UNINITIALIZED"
    by (simp add: ready_dolly_def)
  have h2: "failing_NewDolly (ModelFile some_model) = (None, Some ''failed loading model'')"
    by (simp add: failing_NewDolly_def)
  show ?thesis
    using h1 h2
      Load_when_already_initialized
        [where llm = ready_dolly and NewDolly = failing_NewDolly and opts = some_model
           and model = None and err = "Some ''failed loading model''"]
    by (simp add: ready_dolly_def some_model_def)
qed

section \<open>Properties of the model gallery endpoints\<close>

lemma registered_iff:
  "ContainsFunc gs (\<lambda>gallery. Name gallery = Name input) = (Name input \<in> Name ` set gs)"
  by (induction gs) auto

text \<open>
  C3. For a request body that parses, with the UUID that \<open>uuid.NewUUID\<close> hands out, the
  apply endpoint puts exactly one job at the end of the installer channel, carrying that
  UUID (and the request, the gallery name and the galleries), and answers with the JSON
  object whose field "uuid" is the UUID and whose field "status" is the base URL followed
  by "/models/jobs/" and the UUID.
\<close>

theorem ApplyModelGallery_enqueues_one_job:
  assumes "parsed = Inr input" and "NewUUID = Inr uuid"
  shows "ApplyModelGalleryEndpoint mgs parsed NewUUID BaseURL =
           (Inr (JSON_object [(''uuid'', uuid), (''status'', BaseURL @ ''/models/jobs/'' @ uuid)]),
            mgs\<lparr>galleryApplier := (galleryApplier mgs)
                   \<lparr>C_chan := C_chan (galleryApplier mgs) @
                      [\<lparr>Req = Embedded input, Id_op = uuid, GalleryName = ID input,
                        Galleries = galleries mgs\<rparr>]\<rparr>\<rparr>)"
  using assms by (simp add: ApplyModelGalleryEndpoint_def Let_def)

theorem ApplyModelGallery_enqueues_one_job_witness:
  "ApplyModelGalleryEndpoint sample_service (Inr sample_body) (Inr ''1b4e28ba'')
       ''http://localhost:8080'' =
     (Inr (JSON_object [(''uuid'', ''1b4e28ba''),
                        (''status'', ''http://localhost:8080/models/jobs/1b4e28ba'')]),
      sample_service\<lparr>galleryApplier := sample_applier
        \<lparr>C_chan := [\<lparr>Req = ''llama-7b'', Id_op = ''1b4e28ba'',
                      GalleryName = ''huggingface@llama-7b'',
                      Galleries = [hub_gallery]\<rparr>]\<rparr>\<rparr>)"
  using ApplyModelGallery_enqueues_one_job
    [where parsed = "Inr sample_body" and input = sample_body and NewUUID = "Inr ''1b4e28ba''"
       and uuid = "''1b4e28ba''" and mgs = sample_service and BaseURL = "''http://localhost:8080''"]
  by (simp add: sample_service_def sample_applier_def sample_body_def)

text \<open>
  C4. When the applier has a status for the UUID (its \<open>GetStatus\<close> returns one), the
  job-status endpoint answers with that status as JSON; when it has none (\<open>GetStatus\<close>
  returns nil), the endpoint returns an error and writes no body. This holds whatever
  \<open>GetStatus\<close> is, and so for the lookup by UUID in particular.
\<close>

theorem GetOpStatus_by_uuid:
  "(GetStatus_fn (galleryApplier mgs) uuid = Some status
      \<longrightarrow> GetOpStatusEndpoint GetStatus_fn mgs uuid = Inr (JSON_status status))
   \<and> (GetStatus_fn (galleryApplier mgs) uuid = None
      \<longrightarrow> GetOpStatusEndpoint GetStatus_fn mgs uuid = Inl ''could not find any status for ID'')"
  by (simp add: GetOpStatusEndpoint_def)

theorem GetOpStatus_by_uuid_witness:
  "GetStatus (galleryApplier sample_service) ''1b4e28ba'' = Some ''processing''
   \<and> GetOpStatusEndpoint GetStatus sample_service ''1b4e28ba'' = Inr (JSON_status ''processing'')
   \<and> GetStatus (galleryApplier sample_service) ''0000'' = (None :: string option)
   \<and> GetOpStatusEndpoint GetStatus sample_service ''0000'' = Inl ''could not find any status for ID''"
proof -
  have h1: "GetStatus (galleryApplier sample_service) ''1b4e28ba'' = Some ''processing''"
    by (simp add: GetStatus_def sample_service_def sample_applier_def)
  have h2: "GetStatus (galleryApplier sample_service) ''0000'' = (None :: string option)"
    by (simp add: GetStatus_def sample_service_def sample_applier_def)
  show ?thesis
    using h1 h2
      GetOpStatus_by_uuid [where GetStatus_fn = GetStatus and mgs = sample_service
                             and uuid = "''1b4e28ba''" and status = "''processing''"]
      GetOpStatus_by_uuid [where GetStatus_fn = GetStatus and mgs = sample_service
                             and uuid = "''0000''"]
    by simp
qed

text \<open>
  C9. When the name of the gallery in the request is not registered yet (and the list
  serialises), the add-gallery endpoint answers with the serialisation of the list as it
  was before the request and then appends the gallery: the new gallery is not in the list
  that was serialised, and it is in the list afterwards. When the name is registered
  already, the endpoint returns an error and leaves the service as it was.
\<close>

theorem AddModelGallery_answers_with_old_list:
  "(Name input \<notin> Name ` set (galleries mgs) \<and> Marshal (galleries mgs) = Inr dat
      \<longrightarrow> AddModelGalleryEndpoint Marshal mgs (Inr input) =
            (Inr (Send dat), mgs\<lparr>galleries := galleries mgs @ [input]\<rparr>)
          \<and> input \<notin> set (galleries mgs)
          \<and> input \<in> set (galleries (snd (AddModelGalleryEndpoint Marshal mgs (Inr input)))))
   \<and> (Name input \<in> Name ` set (galleries mgs)
      \<longrightarrow> AddModelGalleryEndpoint Marshal mgs (Inr input) =
            (Inl (Name input @ '' already exists''), mgs))"
  by (auto simp: AddModelGalleryEndpoint_def registered_iff)

theorem AddModelGallery_answers_with_old_list_witness:
  "Name extra_gallery \<notin> Name ` set (galleries sample_service)
   \<and> names_marshal (galleries sample_service) = Inr ''model-gallery''
   \<and> AddModelGalleryEndpoint names_marshal sample_service (Inr extra_gallery) =
       (Inr (Send ''model-gallery''), sample_service\<lparr>galleries := [hub_gallery, extra_gallery]\<rparr>)
   \<and> Name hub_gallery \<in> Name ` set (galleries sample_service)
   \<and> AddModelGalleryEndpoint names_marshal sample_service (Inr hub_gallery) =
       (Inl ''model-gallery already exists'', sample_service)"
proof -
  have h1: "Name extra_gallery \<notin> Name ` set (galleries sample_service)"
    by (simp add: sample_service_def hub_gallery_def extra_gallery_def)
  have h2: "names_marshal (galleries sample_service) = Inr ''model-gallery''"
    by (simp add: names_marshal_def sample_service_def hub_gallery_def)
  have h3: "Name hub_gallery \<in> Name ` set (galleries sample_service)"
    by (simp add: sample_service_def)
  have g: "galleries sample_service = [hub_gallery]" "Name hub_gallery = ''model-gallery''"
    by (simp_all add: sample_service_def hub_gallery_def)
  show ?thesis
    using h1 h2 h3 g
      AddModelGallery_answers_with_old_list
        [where input = extra_gallery and mgs = sample_service and Marshal = names_marshal
           and dat = "''model-gallery''"]
      AddModelGallery_answers_with_old_list
        [where input = hub_gallery and mgs = sample_service and Marshal = names_marshal]
    by simp
qed

section \<open>Properties of the models list command\<close>

lemma print_models_map: "print_models ms = map print_model ms"
  by (induction ms) simp_all

lemma print_model_marker: "(print_model m ! Suc 0 = CHR ''*'') = Installed m"
  by (simp add: print_model_def)

lemma print_model_prefix: "take 3 (print_model m) = (if Installed m then '' * '' else '' - '')"
  by (simp add: print_model_def)

lemma print_model_last: "last (print_model m) = CHR 0x0A"
  by (simp add: print_model_def)

lemma print_model_one_line:
  "CHR 0x0A \<notin> set (Name (Model_Gallery m)) \<Longrightarrow> CHR 0x0A \<notin> set (Model_Name m)
     \<Longrightarrow> count_list (print_model m) (CHR 0x0A) = 1"
  by (simp add: print_model_def)

lemma ModelsList_Run_printed:
  assumes "AvailableGalleryModels (fst (Unmarshal g)) p = Inr models"
  shows "fst (ModelsList_Run Unmarshal AvailableGalleryModels g p) = None"
    and "snd (snd (ModelsList_Run Unmarshal AvailableGalleryModels g p)) = map print_model models"
  using assms
  by (cases "Unmarshal g"; simp add: ModelsList_Run_def print_models_map)+

text \<open>
  C5. When the gallery listing returns its models, the command returns no error and
  prints once for each model, in the order of the listing. The text printed for a model
  begins with " * " when the model is installed and with " - " when it is not, so its
  second character is '*' exactly when the model is installed; it ends with a line feed,
  and it is one line whenever the names of the gallery and of the model hold no line
  feed.
\<close>

theorem ModelsList_marks_installed:
  assumes "AvailableGalleryModels (fst (Unmarshal g)) p = Inr models"
  shows "fst (ModelsList_Run Unmarshal AvailableGalleryModels g p) = None
         \<and> length (snd (snd (ModelsList_Run Unmarshal AvailableGalleryModels g p))) = length models
         \<and> (\<forall>i < length models.
               (snd (snd (ModelsList_Run Unmarshal AvailableGalleryModels g p)) ! i ! 1 = CHR ''*'')
                 = Installed (models ! i)
               \<and> take 3 (snd (snd (ModelsList_Run Unmarshal AvailableGalleryModels g p)) ! i)
                 = (if Installed (models ! i) then '' * '' else '' - '')
               \<and> last (snd (snd (ModelsList_Run Unmarshal AvailableGalleryModels g p)) ! i)
                 = CHR 0x0A
               \<and> (CHR 0x0A \<notin> set (Name (Model_Gallery (models ! i)))
                    \<and> CHR 0x0A \<notin> set (Model_Name (models ! i))
                  \<longrightarrow> count_list (snd (snd (ModelsList_Run Unmarshal AvailableGalleryModels g p)) ! i)
                        (CHR 0x0A) = 1))"
  using assms
    ModelsList_Run_printed
      [where AvailableGalleryModels = AvailableGalleryModels and Unmarshal = Unmarshal
         and g = g and p = p and models = models]
  by (simp add: print_model_marker print_model_prefix print_model_last print_model_one_line)

theorem ModelsList_marks_installed_witness:
  "available_stub (fst (unmarshal_stub ''[]'')) ''/models'' = Inr [llama_listed, bert_listed]
   \<and> ModelsList_Run unmarshal_stub available_stub ''[]'' ''/models'' =
       (None, [],
        ['' * model-gallery@llama-7b (installed)'' @ [CHR 0x0A],
         '' - model-gallery@bert'' @ [CHR 0x0A]])
   \<and> (snd (snd (ModelsList_Run unmarshal_stub available_stub ''[]'' ''/models'')) ! 0 ! 1 = CHR ''*'')
       = Installed ([llama_listed, bert_listed] ! 0)
   \<and> (snd (snd (ModelsList_Run unmarshal_stub available_stub ''[]'' ''/models'')) ! 1 ! 1 = CHR ''*'')
       = Installed ([llama_listed, bert_listed] ! 1)"
proof -
  have h: "available_stub (fst (unmarshal_stub ''[]'')) ''/models''
             = Inr [llama_listed, bert_listed]"
    by (simp add: available_stub_def)
  have run: "ModelsList_Run unmarshal_stub available_stub ''[]'' ''/models'' =
       (None, [],
        ['' * model-gallery@llama-7b (installed)'' @ [CHR 0x0A],
         '' - model-gallery@bert'' @ [CHR 0x0A]])"
    by (simp add: ModelsList_Run_def unmarshal_stub_def available_stub_def print_model_def
        llama_listed_def bert_listed_def hub_gallery_def)
  note t = ModelsList_marks_installed
    [where AvailableGalleryModels = available_stub and Unmarshal = unmarshal_stub
       and g = "''[]''" and p = "''/models''" and models = "[llama_listed, bert_listed]"]
  from t h have m0:
    "(snd (snd (ModelsList_Run unmarshal_stub available_stub ''[]'' ''/models'')) ! 0 ! 1 = CHR ''*'')
       = Installed ([llama_listed, bert_listed] ! 0)"
    by simp
  from t h have m1:
    "(snd (snd (ModelsList_Run unmarshal_stub available_stub ''[]'' ''/models'')) ! 1 ! 1 = CHR ''*'')
       = Installed ([llama_listed, bert_listed] ! 1)"
    by simp
  show ?thesis using h run m0 m1 by blast
qed

section \<open>Properties of the run command\<close>












lemma p2p_block_events:
  "EvHttpApp \<notin> set (fst (p2p_block env rc))"
  "EvListen a \<notin> set (fst (p2p_block env rc))"
  "EvStartup os \<notin> set (fst (p2p_block env rc))"
  by (simp_all add: p2p_block_def Let_def)







lemma Run_main_preload:
  assumes "PreloadBackendOnly rm"
  shows "Run_main env rm ctx =
           (case opts_main env rm ctx of
              Inl out \<Rightarrow> ([], out)
            | Inr os \<Rightarrow> ([EvStartup os], Returned (Startup env os)))"
  using assms by (simp add: Run_main_def startup_main_def split: sum.splits)

lemma Run_cli_preload:
  assumes "PreloadBackendOnly rc"
  shows "Run_cli env rc =
           (case snd (p2p_block env rc) of
              Some err \<Rightarrow> (fst (p2p_block env rc), Returned (Some err))
            | None \<Rightarrow>
                (case opts_cli env rc of
                   Inl out \<Rightarrow> (fst (p2p_block env rc), out)
                 | Inr os \<Rightarrow>
                     (fst (p2p_block env rc) @ [EvStartup os], Returned (Startup env os))))"
  using assms
  by (cases "p2p_block env rc")
     (simp add: Run_cli_def startup_cli_def split: sum.splits option.splits)

text \<open>
  C6, as the code has it. With the flag \<open>PreloadBackendOnly\<close> set, neither version of Run
  ever constructs the HTTP application or listens. When Run gets as far as startup (it
  has its options together: no watchdog timeout failed to parse and no entry of the
  external backends made the loop panic; in \<open>run.go\<close>, moreover, the peer-to-peer
  discovery did not fail), it performs startup once, with those options, and returns
  what startup returns.
\<close>

theorem preload_backend_only_skips_http:
  "(PreloadBackendOnly rm
      \<longrightarrow> EvHttpApp \<notin> set (fst (Run_main env rm ctx))
         \<and> (\<forall>a. EvListen a \<notin> set (fst (Run_main env rm ctx)))
         \<and> (\<forall>os. opts_main env rm ctx = Inr os
               \<longrightarrow> Run_main env rm ctx = ([EvStartup os], Returned (Startup env os))))
   \<and> (PreloadBackendOnly rc
      \<longrightarrow> EvHttpApp \<notin> set (fst (Run_cli env rc))
         \<and> (\<forall>a. EvListen a \<notin> set (fst (Run_cli env rc)))
         \<and> (\<forall>os. snd (p2p_block env rc) = None \<and> opts_cli env rc = Inr os
               \<longrightarrow> Run_cli env rc =
                     (fst (p2p_block env rc) @ [EvStartup os], Returned (Startup env os))))"
proof -
  have m: "PreloadBackendOnly rm
      \<longrightarrow> EvHttpApp \<notin> set (fst (Run_main env rm ctx))
         \<and> (\<forall>a. EvListen a \<notin> set (fst (Run_main env rm ctx)))
         \<and> (\<forall>os. opts_main env rm ctx = Inr os
               \<longrightarrow> Run_main env rm ctx = ([EvStartup os], Returned (Startup env os)))"
    by (auto simp: Run_main_preload split: sum.splits)
  have c: "PreloadBackendOnly rc
      \<longrightarrow> EvHttpApp \<notin> set (fst (Run_cli env rc))
         \<and> (\<forall>a. EvListen a \<notin> set (fst (Run_cli env rc)))
         \<and> (\<forall>os. snd (p2p_block env rc) = None \<and> opts_cli env rc = Inr os
               \<longrightarrow> Run_cli env rc =
                     (fst (p2p_block env rc) @ [EvStartup os], Returned (Startup env os)))"
    by (auto simp: Run_cli_preload p2p_block_events split: sum.splits option.splits)
  from m c show ?thesis by blast
qed

theorem preload_backend_only_skips_http_witness:
  "PreloadBackendOnly preload_cmd
   \<and> opts_main plain_env preload_cmd plain_ctx = Inr (base_opts_main preload_cmd plain_ctx)
   \<and> Run_main plain_env preload_cmd plain_ctx =
       ([EvStartup (base_opts_main preload_cmd plain_ctx)], Returned None)
   \<and> PreloadBackendOnly preload_cli
   \<and> snd (p2p_block plain_env preload_cli) = None
   \<and> opts_cli plain_env preload_cli = Inr (base_opts_cli plain_env preload_cli)
   \<and> Run_cli plain_env preload_cli =
       ([EvStartup (base_opts_cli plain_env preload_cli)], Returned None)"
proof -
  note T = preload_backend_only_skips_http
    [where rm = preload_cmd and rc = preload_cli and env = plain_env and ctx = plain_ctx]
  have f1: "PreloadBackendOnly preload_cmd" by (simp add: preload_cmd_def)
  have f2: "PreloadBackendOnly preload_cli" by (simp add: preload_cli_def)
  have o1: "opts_main plain_env preload_cmd plain_ctx = Inr (base_opts_main preload_cmd plain_ctx)"
    by (simp add: opts_main_def collect_opts_def watchdog_opts_def Let_def
        preload_cmd_def plain_cmd_def)
  have o2: "opts_cli plain_env preload_cli = Inr (base_opts_cli plain_env preload_cli)"
    by (simp add: opts_cli_def collect_opts_def watchdog_opts_def Let_def
        preload_cli_def plain_cli_def)
  have p: "p2p_block plain_env preload_cli = ([], None)"
    by (simp add: p2p_block_def preload_cli_def plain_cli_def)
  have s: "Startup plain_env os = None" for os
    by (simp add: plain_env_def)
  from T f1 o1 have r1: "Run_main plain_env preload_cmd plain_ctx =
       ([EvStartup (base_opts_main preload_cmd plain_ctx)], Returned None)"
    by (simp add: s)
  from T f2 o2 p have r2: "Run_cli plain_env preload_cli =
       ([EvStartup (base_opts_cli plain_env preload_cli)], Returned None)"
    by (simp add: s)
  from f1 f2 o1 o2 p r1 r2 show ?thesis by simp
qed

text \<open>
  C6, as the claim has it, fails: with the flag set and the idle watchdog enabled with the
  timeout "soon", which does not parse, Run returns the parse error. It has not performed
  startup, and what it returns is not startup's result.
\<close>

theorem preload_backend_only_counterexample:
  "PreloadBackendOnly bad_watchdog_cmd
   \<and> Run_main plain_env bad_watchdog_cmd plain_ctx =
       ([], Returned (Some (''time: invalid duration '' @ [CHR 0x22] @ ''soon'' @ [CHR 0x22])))
   \<and> PreloadBackendOnly bad_watchdog_cli
   \<and> Run_cli plain_env bad_watchdog_cli =
       ([], Returned (Some (''time: invalid duration '' @ [CHR 0x22] @ ''soon'' @ [CHR 0x22])))"
  by (simp add: Run_main_def opts_main_def Run_cli_def opts_cli_def p2p_block_def
      collect_opts_def watchdog_opts_def Let_def
      bad_watchdog_cmd_def preload_cmd_def plain_cmd_def
      bad_watchdog_cli_def preload_cli_def plain_cli_def
      plain_env_def parse_duration_stub_def)





end
